theory Spec2Isabelle
  imports Main
begin

section \<open>The Facebook Graph API client of botbuilder-adapter-facebook\<close>

text \<open>
  This theory embeds \<^verbatim>\<open>packages/botbuilder-adapter-facebook/src/facebook_api.ts\<close>:
  the class \<^verbatim>\<open>FacebookAPI\<close> with its constructor and its methods \<^verbatim>\<open>callAPI\<close>,
  \<^verbatim>\<open>get\<close>, \<^verbatim>\<open>post\<close> and \<^verbatim>\<open>getAppSecretProof\<close>. The two libraries the class
  imports, \<^verbatim>\<open>request\<close> (the HTTP transport) and \<^verbatim>\<open>crypto\<close> (the keyed hash), are not part
  of the repository; they are parameters of the model.
\<close>

subsection \<open>JavaScript values\<close>

text \<open>
  The values the client handles: what a JSON decoder produces, and \<^verbatim>\<open>undefined\<close>.
  There are no function values. An object is a plain object (its prototype is
  \<^verbatim>\<open>Object.prototype\<close>): its identity (the number of the allocation that made it) together
  with its own enumerable properties in the order of their insertion; no code of the class
  writes to an object, so the properties can travel with the identity. A number \<open>JNum n\<close>
  stands for the integer \<open>n\<close> of the safe range (\<open>safe_numbers\<close> below), where the
  numbers of the code are exact and their string form is the decimal numeral; fractions,
  \<^verbatim>\<open>NaN\<close>, the infinities and the integers beyond the safe range are not modelled.
\<close>

datatype jsval =
    JUndefined
  | JNull
  | JBool bool
  | JNum int
  | JStr string
  | JArr "jsval list"
  | JObj nat "(string \<times> jsval) list"

datatype js_error =
    Error string   \<comment> \<open>\<^verbatim>\<open>new Error(message)\<close>\<close>
  | TypeError      \<comment> \<open>thrown by the language: a property read of \<^verbatim>\<open>null\<close> or
                       \<^verbatim>\<open>undefined\<close>, or a value that cannot be converted to a string\<close>

text \<open>
  Every number in a value is a safe integer: at most \<open>2\<^sup>5\<^sup>3 - 1\<close> in absolute value
  (\<^verbatim>\<open>Number.isSafeInteger\<close>).
\<close>

fun safe_numbers :: "jsval \<Rightarrow> bool" where
  "safe_numbers (JNum n) = (\<bar>n\<bar> \<le> 9007199254740991)"
| "safe_numbers (JArr xs) = (\<forall>x \<in> set xs. safe_numbers x)"
| "safe_numbers (JObj i ps) = (\<forall>v \<in> snd ` set ps. safe_numbers v)"
| "safe_numbers v = True"

text \<open>The conversion to boolean made by \<^verbatim>\<open>if (v)\<close>, \<^verbatim>\<open>!v\<close> and \<^verbatim>\<open>v || w\<close>.\<close>

fun truthy :: "jsval \<Rightarrow> bool" where
  "truthy JUndefined = False"
| "truthy JNull = False"
| "truthy (JBool b) = b"
| "truthy (JNum n) = (n \<noteq> 0)"
| "truthy (JStr s) = (s \<noteq> [])"
| "truthy (JArr xs) = True"
| "truthy (JObj i ps) = True"

subsection \<open>The client object and its constructor\<close>

record FacebookAPI =
  token :: string
  secret :: "string option"   \<comment> \<open>\<open>None\<close> is \<^verbatim>\<open>undefined\<close>: the argument was left out\<close>
  api_host :: string
  api_version :: string

text \<open>
  \<^verbatim>\<open>constructor(token, secret, api_host = 'graph.facebook.com', api_version = 'v3.2')\<close>.
  An argument that is left out is \<open>None\<close>. The parameter defaults are taken first, then
  \<^verbatim>\<open>if (!token) throw new Error('Token is required!')\<close>, then the four assignments.
\<close>

definition constructor :: "string option \<Rightarrow> string option \<Rightarrow> string option \<Rightarrow> string option
    \<Rightarrow> js_error + FacebookAPI" where
  "constructor token_arg secret_arg api_host_arg api_version_arg =
     (let host = (case api_host_arg of None \<Rightarrow> ''graph.facebook.com'' | Some h \<Rightarrow> h);
          version = (case api_version_arg of None \<Rightarrow> ''v3.2'' | Some v \<Rightarrow> v)
      in case token_arg of
           None \<Rightarrow> Inl (Error ''Token is required!'')
         | Some t \<Rightarrow>
             if t = [] then Inl (Error ''Token is required!'')
             else Inr \<lparr>token = t, secret = secret_arg, api_host = host, api_version = version\<rparr>)"

subsection \<open>Decimal numerals\<close>

text \<open>The decimal numeral of a natural number and of an integer.\<close>

fun show_nat :: "nat \<Rightarrow> string" where
  "show_nat n =
     (if n < 10 then [''0123456789'' ! n]
      else show_nat (n div 10) @ [''0123456789'' ! (n mod 10)])"

declare show_nat.simps [simp del]

definition show_int :: "int \<Rightarrow> string" where
  "show_int i = (if i < 0 then ''-'' @ show_nat (nat (- i)) else show_nat (nat i))"

fun join :: "string \<Rightarrow> string list \<Rightarrow> string" where
  "join sep [] = []"
| "join sep [x] = x"
| "join sep (x # y # ys) = x @ sep @ join sep (y # ys)"

subsection \<open>Property keys and property reads\<close>

text \<open>
  An array index is a key that is the decimal numeral, without leading zeros, of a number
  below \<open>2\<^sup>3\<^sup>2 - 1\<close>. \<open>array_index\<close> gives that number.
\<close>

definition digit_value :: "char \<Rightarrow> nat" where
  "digit_value c = of_char c - 48"

definition is_digit :: "char \<Rightarrow> bool" where
  "is_digit c = (c \<in> set ''0123456789'')"

definition array_index :: "string \<Rightarrow> nat option" where
  "array_index k =
     (let n = foldl (\<lambda>a c. 10 * a + digit_value c) 0 k
      in if k \<noteq> [] \<and> list_all is_digit k \<and> (k = ''0'' \<or> hd k \<noteq> CHR ''0'') \<and> n < 2 ^ 32 - 1
         then Some n else None)"

text \<open>
  The keys a \<^verbatim>\<open>for (const key in v)\<close> loop visits, in the order it visits them. For an
  object these are its own keys: first those that are array indices, in ascending numeric
  order, then all others in the order of their insertion. For an array and for a string they
  are the indices. A loop over any other value, \<^verbatim>\<open>null\<close> and \<^verbatim>\<open>undefined\<close> included, has
  no iteration. (The built-in prototypes have no enumerable property.)
\<close>

fun for_in_keys :: "jsval \<Rightarrow> string list" where
  "for_in_keys (JObj i ps) =
     (let ks = map fst ps
      in sort_key (\<lambda>k. case array_index k of Some n \<Rightarrow> n | None \<Rightarrow> 0)
           (filter (\<lambda>k. array_index k \<noteq> None) ks)
         @ filter (\<lambda>k. array_index k = None) ks)"
| "for_in_keys (JArr xs) = map show_nat [0..<length xs]"
| "for_in_keys (JStr s) = map show_nat [0..<length s]"
| "for_in_keys v = []"

text \<open>
  The read \<^verbatim>\<open>v[k]\<close> (or \<^verbatim>\<open>v.k\<close>) of a value other than \<^verbatim>\<open>null\<close> and \<^verbatim>\<open>undefined\<close>:
  the own property when there is one, \<^verbatim>\<open>undefined\<close> otherwise. The methods that the
  built-in prototypes add are functions and are not modelled; none is named \<^verbatim>\<open>error\<close> or
  \<^verbatim>\<open>message\<close>, and no \<^verbatim>\<open>for\<close>-\<^verbatim>\<open>in\<close> loop visits one.
\<close>

fun has_own :: "jsval \<Rightarrow> string \<Rightarrow> bool" where
  "has_own (JObj i ps) k = (k \<in> fst ` set ps)"
| "has_own (JArr xs) k =
     (case array_index k of Some n \<Rightarrow> n < length xs | None \<Rightarrow> k = ''length'')"
| "has_own (JStr s) k =
     (case array_index k of Some n \<Rightarrow> n < length s | None \<Rightarrow> k = ''length'')"
| "has_own v k = False"

fun prop_of :: "jsval \<Rightarrow> string \<Rightarrow> jsval" where
  "prop_of (JObj i ps) k = (case map_of ps k of Some v \<Rightarrow> v | None \<Rightarrow> JUndefined)"
| "prop_of (JArr xs) k =
     (case array_index k of
        Some n \<Rightarrow> if n < length xs then xs ! n else JUndefined
      | None \<Rightarrow> if k = ''length'' then JNum (int (length xs)) else JUndefined)"
| "prop_of (JStr s) k =
     (case array_index k of
        Some n \<Rightarrow> if n < length s then JStr [s ! n] else JUndefined
      | None \<Rightarrow> if k = ''length'' then JNum (int (length s)) else JUndefined)"
| "prop_of v k = JUndefined"

text \<open>The same read of any value: reading a property of \<^verbatim>\<open>null\<close> or \<^verbatim>\<open>undefined\<close> throws.\<close>

definition get_prop :: "jsval \<Rightarrow> string \<Rightarrow> js_error + jsval" where
  "get_prop v k = (if v = JUndefined \<or> v = JNull then Inl TypeError else Inr (prop_of v k))"

subsection \<open>The string of a value\<close>

text \<open>
  The string a template literal \<^verbatim>\<open>`${v}`\<close> puts in place of \<open>v\<close>, or the error the
  conversion throws. A string is itself; \<^verbatim>\<open>undefined\<close>, \<^verbatim>\<open>null\<close> and the booleans give
  their names; a number gives its decimal numeral. An object is converted by its
  \<^verbatim>\<open>toString\<close> method, then by its \<^verbatim>\<open>valueOf\<close> method: an object without an own key
  \<^verbatim>\<open>toString\<close> has the method of \<^verbatim>\<open>Object.prototype\<close>, which gives
  \<^verbatim>\<open>[object Object]\<close>; with an own key \<^verbatim>\<open>toString\<close> that property is not a function,
  \<^verbatim>\<open>valueOf\<close> (own and not a function, or the inherited one, which gives the object
  back) yields no primitive either, and the conversion throws a TypeError. An array gives
  the strings of its elements joined by commas, \<^verbatim>\<open>null\<close> and \<^verbatim>\<open>undefined\<close> elements as
  the empty string; the elements are converted from left to right and the first throw is the
  throw of the array. Nothing is percent-encoded.
\<close>

fun to_string :: "jsval \<Rightarrow> js_error + string"
  and element_strings :: "jsval list \<Rightarrow> js_error + string list" where
  "to_string JUndefined = Inr ''undefined''"
| "to_string JNull = Inr ''null''"
| "to_string (JBool b) = Inr (if b then ''true'' else ''false'')"
| "to_string (JNum n) = Inr (show_int n)"
| "to_string (JStr s) = Inr s"
| "to_string (JArr xs) =
     (case element_strings xs of Inl e \<Rightarrow> Inl e | Inr strs \<Rightarrow> Inr (join '','' strs))"
| "to_string (JObj i ps) =
     (if ''toString'' \<in> fst ` set ps then Inl TypeError else Inr ''[object Object]'')"
| "element_strings [] = Inr []"
| "element_strings (x # xs) =
     (case (if x = JUndefined \<or> x = JNull then Inr [] else to_string x) of
        Inl e \<Rightarrow> Inl e
      | Inr str \<Rightarrow>
          (case element_strings xs of Inl e \<Rightarrow> Inl e | Inr strs \<Rightarrow> Inr (str # strs)))"

subsection \<open>The two libraries\<close>

text \<open>
  \<^verbatim>\<open>crypto\<close>: \<^verbatim>\<open>createHmac(algorithm, key)\<close> makes a keyed-hash object, \<^verbatim>\<open>update(data)\<close>
  feeds it and \<^verbatim>\<open>digest(encoding)\<close> gives the hash. The hash itself is the parameter
  \<open>C\<close>, a function of the algorithm, the key, the data and the encoding.
\<close>

type_synonym crypto = "string \<Rightarrow> string \<Rightarrow> string \<Rightarrow> string \<Rightarrow> string"

record hmac =
  hmac_algorithm :: string
  hmac_key :: string
  hmac_data :: string

definition createHmac :: "string \<Rightarrow> string \<Rightarrow> hmac" where
  "createHmac alg k = \<lparr>hmac_algorithm = alg, hmac_key = k, hmac_data = []\<rparr>"

definition update :: "hmac \<Rightarrow> string \<Rightarrow> hmac" where
  "update h d = h\<lparr>hmac_data := hmac_data h @ d\<rparr>"

definition digest :: "crypto \<Rightarrow> hmac \<Rightarrow> string \<Rightarrow> string" where
  "digest C h encoding = C (hmac_algorithm h) (hmac_key h) (hmac_data h) encoding"

text \<open>
  \<^verbatim>\<open>request\<close>: the options of one HTTP request, and the transport \<open>T\<close>, which answers a
  request with the three arguments \<^verbatim>\<open>(err, res, body)\<close> of the callback.
\<close>

record request =
  req_method :: string   \<comment> \<open>the option \<^verbatim>\<open>method\<close>\<close>
  req_json :: bool       \<comment> \<open>the option \<^verbatim>\<open>json\<close>\<close>
  req_body :: jsval      \<comment> \<open>the option \<^verbatim>\<open>body\<close>\<close>
  req_uri :: string      \<comment> \<open>the option \<^verbatim>\<open>uri\<close>\<close>

type_synonym transport = "request \<Rightarrow> jsval \<times> jsval \<times> jsval"

subsection \<open>The methods of the client\<close>

text \<open>
  A method runs in a state: the client object it is called on (\<^verbatim>\<open>this\<close>) and the number of
  objects allocated so far, which is the identity of the next one. It returns its result
  and the state it leaves.
\<close>

record state =
  self :: FacebookAPI
  next_id :: nat

text \<open>The empty object literal \<^verbatim>\<open>{}\<close>: each evaluation allocates an object.\<close>

definition new_object :: "state \<Rightarrow> jsval \<times> state" where
  "new_object s = (JObj (next_id s) [], s\<lparr>next_id := Suc (next_id s)\<rparr>)"

text \<open>
  \<^verbatim>\<open>getAppSecretProof(access_token, app_secret)\<close>:
  \<^verbatim>\<open>crypto.createHmac('sha256', app_secret || '')\<close>, then
  \<^verbatim>\<open>hmac.update(access_token).digest('hex')\<close>. The operand \<^verbatim>\<open>app_secret || ''\<close> is
  \<open>app_secret\<close> when that is a non-empty string and \<^verbatim>\<open>''\<close> otherwise.
\<close>

definition getAppSecretProof :: "crypto \<Rightarrow> string \<Rightarrow> string option \<Rightarrow> state \<Rightarrow> string \<times> state" where
  "getAppSecretProof C access_token app_secret s =
     (let hmac = createHmac ''sha256''
                   (case app_secret of None \<Rightarrow> [] | Some k \<Rightarrow> if k \<noteq> [] then k else [])
      in (digest C (update hmac access_token) ''hex'', s))"

text \<open>
  The parameter list of
  \<^verbatim>\<open>callAPI(path, method = 'POST', payload = {}, query = {})\<close>: a default is taken, left to
  right, for each argument that is \<^verbatim>\<open>undefined\<close>, and each \<^verbatim>\<open>{}\<close> is evaluated when it is
  taken.
\<close>

definition callAPI_defaults :: "string option \<Rightarrow> jsval \<Rightarrow> jsval \<Rightarrow> state
    \<Rightarrow> (string \<times> jsval \<times> jsval) \<times> state" where
  "callAPI_defaults method_arg payload_arg query_arg s =
     (let method = (case method_arg of None \<Rightarrow> ''POST'' | Some m \<Rightarrow> m);
          (payload, s1) = (if payload_arg = JUndefined then new_object s else (payload_arg, s));
          (query, s2) = (if query_arg = JUndefined then new_object s1 else (query_arg, s1))
      in ((method, payload, query), s2))"

text \<open>
  The loop \<^verbatim>\<open>for (const key in query) queryString = queryString + `${key}=${query[key]}&`\<close>
  from \<^verbatim>\<open>queryString = '?'\<close>. The read \<^verbatim>\<open>query[key]\<close> is made inside the loop only, where
  \<open>query\<close> has a key and so is neither \<^verbatim>\<open>null\<close> nor \<^verbatim>\<open>undefined\<close>. A conversion that
  throws ends the loop with its error.
\<close>

fun query_loop :: "jsval \<Rightarrow> string list \<Rightarrow> string \<Rightarrow> js_error + string" where
  "query_loop query [] queryString = Inr queryString"
| "query_loop query (key # keys) queryString =
     (case to_string (prop_of query key) of
        Inl e \<Rightarrow> Inl e
      | Inr str \<Rightarrow> query_loop query keys (queryString @ key @ ''='' @ str @ ''&''))"

definition query_string :: "jsval \<Rightarrow> js_error + string" where
  "query_string query = query_loop query (for_in_keys query) ''?''"

text \<open>
  What a call comes to. The callback resolves the promise with a value or rejects it with a
  value, or the callback throws, which leaves the promise pending for ever. Before all that,
  the body of the \<^verbatim>\<open>async\<close> method can throw, which rejects the promise with the error
  thrown.
\<close>

datatype outcome =
    Resolved jsval
  | Rejected jsval
  | Faulted js_error   \<comment> \<open>thrown in the callback\<close>
  | Thrown js_error    \<comment> \<open>thrown by the body of the method; the promise is rejected with it\<close>

text \<open>
  The callback \<^verbatim>\<open>(err, res, body) => { if (err) reject(err); else if (body.error)
  reject(body.error.message); else resolve(body); }\<close>.
\<close>

definition handler :: "jsval \<Rightarrow> jsval \<Rightarrow> jsval \<Rightarrow> outcome" where
  "handler err res body =
     (if truthy err then Rejected err
      else case get_prop body ''error'' of
             Inl e \<Rightarrow> Faulted e
           | Inr body_error \<Rightarrow>
               if truthy body_error
               then (case get_prop body_error ''message'' of
                       Inl e \<Rightarrow> Faulted e
                     | Inr message \<Rightarrow> Rejected message)
               else Resolved body)"

text \<open>
  \<^verbatim>\<open>callAPI\<close> gives the request it hands to the transport, if it comes to that, the
  outcome of the promise and the state. The proof and the query string are computed first;
  when the loop throws, no promise is made and no request is sent.
\<close>

definition callAPI :: "crypto \<Rightarrow> transport \<Rightarrow> string \<Rightarrow> string option \<Rightarrow> jsval \<Rightarrow> jsval \<Rightarrow> state
    \<Rightarrow> (request option \<times> outcome) \<times> state" where
  "callAPI C T path method_arg payload_arg query_arg s =
     (let ((method, payload, query), s1) = callAPI_defaults method_arg payload_arg query_arg s;
          (proof, s2) = getAppSecretProof C (token (self s1)) (secret (self s1)) s1
      in case query_string query of
           Inl e \<Rightarrow> ((None, Thrown e), s2)
         | Inr queryString \<Rightarrow>
             (let req = \<lparr>req_method = method, req_json = True, req_body = payload,
                    req_uri = ''https://'' @ api_host (self s2) @ ''/'' @ api_version (self s2)
                          @ path @ queryString @ ''access_token='' @ token (self s2)
                          @ ''&appsecret_proof='' @ proof\<rparr>;
                  (err, res, body) = T req
              in ((Some req, handler err res body), s2)))"

text \<open>\<^verbatim>\<open>get(path, query)\<close> is \<^verbatim>\<open>return this.callAPI(path, 'GET', {}, query)\<close>.\<close>

definition get :: "crypto \<Rightarrow> transport \<Rightarrow> string \<Rightarrow> jsval \<Rightarrow> state
    \<Rightarrow> (request option \<times> outcome) \<times> state" where
  "get C T path query s =
     (let (payload, s1) = new_object s in callAPI C T path (Some ''GET'') payload query s1)"

text \<open>\<^verbatim>\<open>post(path, body, query)\<close> is \<^verbatim>\<open>return this.callAPI(path, 'POST', body, query)\<close>.\<close>

definition post :: "crypto \<Rightarrow> transport \<Rightarrow> string \<Rightarrow> jsval \<Rightarrow> jsval \<Rightarrow> state
    \<Rightarrow> (request option \<times> outcome) \<times> state" where
  "post C T path body query s = callAPI C T path (Some ''POST'') body query s"

text \<open>
  A call of one of the four methods, and a sequence of calls made one after the other on
  the same client, each with the transport that serves it.
\<close>

datatype api_call =
    CallAPI string "string option" jsval jsval
  | Get string jsval
  | Post string jsval jsval
  | GetAppSecretProof string "string option"

fun exec :: "crypto \<Rightarrow> transport \<Rightarrow> api_call \<Rightarrow> state \<Rightarrow> state" where
  "exec C T (CallAPI path method_arg payload_arg query_arg) s =
     snd (callAPI C T path method_arg payload_arg query_arg s)"
| "exec C T (Get path query) s = snd (get C T path query s)"
| "exec C T (Post path body query) s = snd (post C T path body query s)"
| "exec C T (GetAppSecretProof access_token app_secret) s =
     snd (getAppSecretProof C access_token app_secret s)"

fun exec_all :: "crypto \<Rightarrow> (transport \<times> api_call) list \<Rightarrow> state \<Rightarrow> state" where
  "exec_all C [] s = s"
| "exec_all C ((T, c) # cs) s = exec_all C cs (exec C T c s)"

text \<open>The three parts of what \<^verbatim>\<open>callAPI\<close>, \<^verbatim>\<open>get\<close> and \<^verbatim>\<open>post\<close> give.\<close>

definition request_of :: "(request option \<times> outcome) \<times> state \<Rightarrow> request option" where
  "request_of r = fst (fst r)"

definition outcome_of :: "(request option \<times> outcome) \<times> state \<Rightarrow> outcome" where
  "outcome_of r = snd (fst r)"

definition state_after :: "(request option \<times> outcome) \<times> state \<Rightarrow> state" where
  "state_after r = snd r"

text \<open>A promise is settled when it is resolved or rejected.\<close>

fun settled :: "outcome \<Rightarrow> bool" where
  "settled (Resolved v) = True"
| "settled (Rejected v) = True"
| "settled (Faulted e) = False"
| "settled (Thrown e) = True"

subsection \<open>The wording of the specification\<close>

text \<open>
  The outcome as the specification words it: a transport error is surfaced unchanged;
  otherwise a body that contains an \<^verbatim>\<open>error\<close> field with a \<^verbatim>\<open>message\<close> fails the call with
  that message; otherwise the call resolves to the body.
\<close>

definition spec_outcome :: "jsval \<Rightarrow> jsval \<Rightarrow> outcome" where
  "spec_outcome err body =
     (if truthy err then Rejected err
      else if has_own body ''error'' \<and> has_own (prop_of body ''error'') ''message''
      then Rejected (prop_of (prop_of body ''error'') ''message'')
      else Resolved body)"

text \<open>
  The query part of the URL as the specification words it: a \<^verbatim>\<open>?\<close>, then each entry as
  \<^verbatim>\<open>key=value&\<close> in the order of insertion, the value being the string its conversion
  gives.
\<close>

definition spec_query_string :: "(string \<times> jsval) list \<Rightarrow> string" where
  "spec_query_string ps =
     ''?'' @ concat (map (\<lambda>(k, v). k @ ''='' @ projr (to_string v) @ ''&'') ps)"

subsection \<open>Concrete libraries and a concrete client\<close>

text \<open>
  For the examples: a keyed hash that only writes its arguments down, a transport that
  answers every request with the same callback arguments, and a client in a state where
  five objects exist.
\<close>

definition example_crypto :: crypto where
  "example_crypto alg k d encoding = alg @ ''-'' @ encoding @ ''('' @ k @ '','' @ d @ '')''"

definition answering :: "jsval \<Rightarrow> jsval \<Rightarrow> jsval \<Rightarrow> transport" where
  "answering err res body = (\<lambda>req. (err, res, body))"

definition example_state :: state where
  "example_state =
     \<lparr>self = \<lparr>token = ''EAAB'', secret = Some ''s3cret'', api_host = ''graph.facebook.com'',
              api_version = ''v3.2''\<rparr>,
      next_id = 5\<rparr>"

text \<open>The request that client sends for a \<^verbatim>\<open>GET\<close> of \<^verbatim>\<open>/me\<close> without payload and query.\<close>

definition example_request :: request where
  "example_request =
     \<lparr>req_method = ''GET'', req_json = True, req_body = JObj 5 [],
      req_uri = ''https://graph.facebook.com/v3.2/me?access_token=EAAB&appsecret_proof=sha256-hex(s3cret,EAAB)''\<rparr>"

section \<open>Properties\<close>

subsection \<open>Construction\<close>

text \<open>
  Claim C3. Constructing the client with an absent or an empty token fails, at once, with
  the error \<^verbatim>\<open>Error('Token is required!')\<close> (the error the specification calls
  ConfigurationError), whatever the other arguments are. With any non-empty token the
  construction succeeds, and the client holds the token, the secret, the host and the
  version exactly as they were given, the secret also when it was left out.
\<close>

theorem constructor_token:
  "(token_arg = None \<or> token_arg = Some [] \<longrightarrow>
      constructor token_arg secret_arg api_host_arg api_version_arg
        = Inl (Error ''Token is required!''))
   \<and> (t \<noteq> [] \<longrightarrow>
        constructor (Some t) secret_arg (Some h) (Some v)
          = Inr \<lparr>token = t, secret = secret_arg, api_host = h, api_version = v\<rparr>)
   \<and> (t \<noteq> [] \<longrightarrow>
        (\<exists>c. constructor (Some t) secret_arg api_host_arg api_version_arg = Inr c
             \<and> token c = t \<and> secret c = secret_arg
             \<and> (\<forall>h. api_host_arg = Some h \<longrightarrow> api_host c = h)
             \<and> (\<forall>v. api_version_arg = Some v \<longrightarrow> api_version c = v)))"
  by (auto simp: constructor_def)

theorem constructor_token_witness:
  "constructor None (Some ''s3cret'') None None = Inl (Error ''Token is required!'')
   \<and> constructor (Some []) None (Some ''example.org'') None = Inl (Error ''Token is required!'')
   \<and> constructor (Some ''EAAB'') (Some ''s3cret'') (Some ''example.org'') (Some ''v9.0'')
       = Inr \<lparr>token = ''EAAB'', secret = Some ''s3cret'', api_host = ''example.org'',
              api_version = ''v9.0''\<rparr>"
  using constructor_token [of None "Some ''s3cret''" None None "''EAAB''" "''example.org''" "''v9.0''"]
    constructor_token [of "Some []" None "Some ''example.org''" None "''EAAB''" "''example.org''" "''v9.0''"]
  by simp

subsection \<open>Facts used by several properties\<close>

lemma getAppSecretProof_eq:
  "getAppSecretProof C access_token app_secret s =
     (C ''sha256'' (case app_secret of None \<Rightarrow> [] | Some k \<Rightarrow> k) access_token ''hex'', s)"
  by (cases app_secret) (simp_all add: getAppSecretProof_def createHmac_def update_def digest_def)

lemma callAPI_defaults_eq:
  "callAPI_defaults m p q s =
     ((case m of None \<Rightarrow> ''POST'' | Some x \<Rightarrow> x,
       if p = JUndefined then JObj (next_id s) [] else p,
       if q = JUndefined then JObj (next_id s + (if p = JUndefined then 1 else 0)) [] else q),
      s\<lparr>next_id := next_id s + (if p = JUndefined then 1 else 0)
                             + (if q = JUndefined then 1 else 0)\<rparr>)"
  by (simp add: callAPI_defaults_def new_object_def)

lemma self_callAPI_defaults: "self (snd (callAPI_defaults m p q s)) = self s"
  by (simp add: callAPI_defaults_eq)

lemma callAPI_unfold:
  "callAPI C T path method_arg payload_arg query_arg s =
     (case callAPI_defaults method_arg payload_arg query_arg s of
        ((m, payload, query), s1) \<Rightarrow>
          (case query_string query of
             Inl e \<Rightarrow> ((None, Thrown e), s1)
           | Inr queryString \<Rightarrow>
               (let req = \<lparr>req_method = m, req_json = True, req_body = payload,
                      req_uri = ''https://'' @ api_host (self s) @ ''/'' @ api_version (self s)
                            @ path @ queryString @ ''access_token='' @ token (self s)
                            @ ''&appsecret_proof=''
                            @ fst (getAppSecretProof C (token (self s)) (secret (self s)) s)\<rparr>
                in ((Some req, case T req of (err, res, body) \<Rightarrow> handler err res body), s1))))"
proof -
  obtain m payload query s1
    where d: "callAPI_defaults method_arg payload_arg query_arg s = ((m, payload, query), s1)"
    by (metis prod.exhaust)
  have "self s1 = self s"
    using self_callAPI_defaults [of method_arg payload_arg query_arg s] d by simp
  then show ?thesis
    by (simp add: callAPI_def d getAppSecretProof_eq Let_def split: prod.splits sum.splits)
qed

lemma request_of_callAPI:
  "request_of (callAPI C T path m p q s) =
     (case fst (callAPI_defaults m p q s) of
        (method, payload, query) \<Rightarrow>
          (case query_string query of
             Inl e \<Rightarrow> None
           | Inr queryString \<Rightarrow>
               Some \<lparr>req_method = method, req_json = True, req_body = payload,
                 req_uri = ''https://'' @ api_host (self s) @ ''/'' @ api_version (self s) @ path
                     @ queryString @ ''access_token='' @ token (self s)
                     @ ''&appsecret_proof=''
                     @ fst (getAppSecretProof C (token (self s)) (secret (self s)) s)\<rparr>))"
  by (simp add: callAPI_unfold request_of_def Let_def split: prod.splits sum.splits)

lemma outcome_of_callAPI:
  assumes "request_of (callAPI C T path m p q s) = Some req"
  shows "outcome_of (callAPI C T path m p q s) =
           (case T req of (err, res, body) \<Rightarrow> handler err res body)"
  using assms
  by (auto simp: callAPI_unfold outcome_of_def request_of_def Let_def split: prod.splits sum.splits)

lemma callAPI_throws:
  assumes "query_string (snd (snd (fst (callAPI_defaults m p q s)))) = Inl e"
  shows "request_of (callAPI C T path m p q s) = None
    \<and> outcome_of (callAPI C T path m p q s) = Thrown e"
  using assms
  by (auto simp: callAPI_unfold outcome_of_def request_of_def Let_def split: prod.splits sum.splits)

lemma state_after_callAPI:
  "state_after (callAPI C T path m p q s) = snd (callAPI_defaults m p q s)"
  by (simp add: callAPI_unfold state_after_def Let_def split: prod.splits sum.splits)

lemma self_callAPI: "self (snd (callAPI C T path m p q s)) = self s"
  using state_after_callAPI [of C T path m p q s] self_callAPI_defaults [of m p q s]
  by (simp add: state_after_def)

lemma self_get: "self (snd (get C T path q s)) = self s"
  using self_callAPI [of C T path "Some ''GET''" "JObj (next_id s) []" q "s\<lparr>next_id := Suc (next_id s)\<rparr>"]
  by (simp add: get_def new_object_def)

lemma self_post: "self (snd (post C T path b q s)) = self s"
  by (simp add: post_def self_callAPI)

lemma self_exec: "self (exec C T c s) = self s"
  by (cases c) (simp_all add: self_callAPI self_get self_post getAppSecretProof_eq)

lemma not_has_own_prop_of: "\<not> has_own v k \<Longrightarrow> prop_of v k = JUndefined"
proof (cases v)
  case (JObj i ps)
  assume "\<not> has_own v k"
  with JObj have "map_of ps k = None" by (simp add: map_of_eq_None_iff)
  with JObj show ?thesis by simp
qed (auto split: option.splits)

lemma handler_cases:
  "handler err res body =
     (if truthy err then Rejected err
      else if body = JUndefined \<or> body = JNull then Faulted TypeError
      else if truthy (prop_of body ''error'')
      then Rejected (prop_of (prop_of body ''error'') ''message'')
      else Resolved body)"
proof -
  have "truthy v \<Longrightarrow> get_prop v k = Inr (prop_of v k)" for v k
    by (cases v) (simp_all add: get_prop_def)
  then show ?thesis
    by (simp add: handler_def get_prop_def)
qed

lemma array_index_no_digit: "k \<noteq> [] \<Longrightarrow> \<not> is_digit (hd k) \<Longrightarrow> array_index k = None"
  by (cases k) (simp_all add: array_index_def)

lemma for_in_keys_insertion_order:
  "\<forall>k \<in> fst ` set ps. array_index k = None \<Longrightarrow> for_in_keys (JObj i ps) = map fst ps"
proof -
  assume a: "\<forall>k \<in> fst ` set ps. array_index k = None"
  have 1: "filter (\<lambda>k. array_index k \<noteq> None) (map fst ps) = []"
    using a by (auto simp: filter_empty_conv)
  have 2: "filter (\<lambda>k. array_index k = None) (map fst ps) = map fst ps"
    using a by (auto simp: filter_id_conv)
  show ?thesis unfolding for_in_keys.simps Let_def 1 2 by simp
qed

lemma query_loop_converts:
  "\<forall>k \<in> set ks. \<not> isl (to_string (prop_of q k)) \<Longrightarrow>
     query_loop q ks acc
       = Inr (acc @ concat (map (\<lambda>k. k @ ''='' @ projr (to_string (prop_of q k)) @ ''&'') ks))"
proof (induction ks arbitrary: acc)
  case Nil
  show ?case by simp
next
  case (Cons k ks)
  from Cons.prems obtain str where s: "to_string (prop_of q k) = Inr str"
    by (cases "to_string (prop_of q k)") auto
  from Cons.prems have "\<forall>k \<in> set ks. \<not> isl (to_string (prop_of q k))" by simp
  from Cons.IH [OF this] s show ?case by simp
qed

lemma for_in_keys_own: "set (for_in_keys (JObj i ps)) \<subseteq> fst ` set ps"
  by (auto simp: Let_def)

lemma prop_of_own_value: "k \<in> fst ` set ps \<Longrightarrow> prop_of (JObj i ps) k \<in> snd ` set ps"
proof -
  assume "k \<in> fst ` set ps"
  then obtain v where v: "map_of ps k = Some v"
    by (cases "map_of ps k") (auto simp: map_of_eq_None_iff)
  then have "(k, v) \<in> set ps" by (rule map_of_SomeD)
  with v show ?thesis by force
qed

lemma query_string_converts:
  assumes "\<forall>v \<in> snd ` set ps. \<not> isl (to_string v)"
  shows "query_string (JObj i ps)
       = Inr (''?'' @ concat (map (\<lambda>k. k @ ''='' @ projr (to_string (prop_of (JObj i ps) k)) @ ''&'')
                               (for_in_keys (JObj i ps))))"
proof -
  have "\<forall>k \<in> set (for_in_keys (JObj i ps)). \<not> isl (to_string (prop_of (JObj i ps) k))"
    using assms for_in_keys_own [of i ps] prop_of_own_value [of _ ps i] by blast
  from query_loop_converts [OF this] show ?thesis
    by (simp add: query_string_def)
qed


lemma example_request_sent:
  "request_of (callAPI example_crypto T ''/me'' (Some ''GET'') JUndefined JUndefined example_state)
     = Some example_request"
  by (simp add: request_of_callAPI callAPI_defaults_eq query_string_def getAppSecretProof_eq
      example_state_def example_crypto_def example_request_def)

subsection \<open>The app secret proof\<close>

text \<open>
  Claim C4. \<^verbatim>\<open>getAppSecretProof\<close> is deterministic and pure: its result is the keyed hash
  (algorithm \<^verbatim>\<open>sha256\<close>, encoding \<^verbatim>\<open>hex\<close>) of the token under the secret, a function of
  the token and the secret alone, so two evaluations on the same pair, in whatever states,
  give the same string, and the state is left as it was. An absent secret gives the same
  proof as the empty secret.
\<close>

theorem getAppSecretProof_deterministic:
  "getAppSecretProof C access_token app_secret s
     = (C ''sha256'' (case app_secret of None \<Rightarrow> [] | Some k \<Rightarrow> k) access_token ''hex'', s)
   \<and> fst (getAppSecretProof C access_token app_secret s)
       = fst (getAppSecretProof C access_token app_secret s')
   \<and> fst (getAppSecretProof C access_token None s)
       = fst (getAppSecretProof C access_token (Some []) s)"
  by (cases app_secret) (simp_all add: getAppSecretProof_def createHmac_def update_def digest_def)

subsection \<open>The wrappers\<close>

text \<open>
  Claim C5. For every path, body and query, \<^verbatim>\<open>get(path, query)\<close> gives what
  \<^verbatim>\<open>callAPI(path, 'GET', {}, query)\<close> gives, and \<^verbatim>\<open>post(path, body, query)\<close> gives what
  \<^verbatim>\<open>callAPI(path, 'POST', body, query)\<close> gives: the same request, the same outcome and the
  same state. The wrappers add nothing.
\<close>

theorem get_post_delegate:
  "get C T path query s
     = (case new_object s of (payload, s1) \<Rightarrow> callAPI C T path (Some ''GET'') payload query s1)
   \<and> get C T path query s
       = callAPI C T path (Some ''GET'') (JObj (next_id s) []) query
           (s\<lparr>next_id := Suc (next_id s)\<rparr>)
   \<and> post C T path payload query s = callAPI C T path (Some ''POST'') payload query s"
  by (simp add: get_def post_def new_object_def)

subsection \<open>The configuration is never written\<close>

text \<open>
  Claim C7. The configuration is immutable after construction: after any sequence of calls
  of \<^verbatim>\<open>callAPI\<close>, \<^verbatim>\<open>get\<close>, \<^verbatim>\<open>post\<close> and \<^verbatim>\<open>getAppSecretProof\<close>, whatever the
  transports answer, the token, the secret, the host and the version of the client are what
  they were before.
\<close>

theorem config_immutable:
  "token (self (exec_all C cs s)) = token (self s)
   \<and> secret (self (exec_all C cs s)) = secret (self s)
   \<and> api_host (self (exec_all C cs s)) = api_host (self s)
   \<and> api_version (self (exec_all C cs s)) = api_version (self s)"
proof -
  have "self (exec_all C cs s) = self s"
  proof (induction cs arbitrary: s)
    case Nil
    show ?case by simp
  next
    case (Cons tc cs)
    obtain T c where tc: "tc = (T, c)" by (cases tc)
    have "self (exec_all C (tc # cs) s) = self (exec C T c s)"
      using Cons.IH [of "exec C T c s"] tc by simp
    then show ?case by (simp add: self_exec)
  qed
  then show ?thesis by simp
qed

subsection \<open>The URL of a call without query entries\<close>

text \<open>
  Claim C10. For a call with an empty query mapping the query string is the single
  character \<^verbatim>\<open>?\<close>, so in the URL of the request \<^verbatim>\<open>access_token=<token>&appsecret_proof=<proof>\<close>
  comes right after the \<^verbatim>\<open>?\<close>, with no \<^verbatim>\<open>&\<close> and no entry between. The same holds
  when the query is left out.
\<close>

theorem empty_query_uri:
  "query_string (JObj i []) = Inr ''?''
   \<and> map_option req_uri (request_of (callAPI C T path m p (JObj i []) s))
       = Some (''https://'' @ api_host (self s) @ ''/'' @ api_version (self s) @ path
               @ ''?access_token='' @ token (self s) @ ''&appsecret_proof=''
               @ fst (getAppSecretProof C (token (self s)) (secret (self s)) s))
   \<and> map_option req_uri (request_of (callAPI C T path m p JUndefined s))
       = Some (''https://'' @ api_host (self s) @ ''/'' @ api_version (self s) @ path
               @ ''?access_token='' @ token (self s) @ ''&appsecret_proof=''
               @ fst (getAppSecretProof C (token (self s)) (secret (self s)) s))"
proof -
  have q: "query_string (JObj j []) = Inr ''?''" for j
    by (simp add: query_string_def)
  show ?thesis
    by (simp add: q request_of_callAPI callAPI_defaults_eq)
qed

subsection \<open>Parameter defaults\<close>

text \<open>
  Claim C6. The defaults of the parameters that are left out. In the constructor the host
  defaults to \<^verbatim>\<open>graph.facebook.com\<close> whatever the version argument is, and the version
  defaults to \<^verbatim>\<open>v3.2\<close> whatever the host argument is. In \<^verbatim>\<open>callAPI\<close> the method defaults
  to \<^verbatim>\<open>POST\<close>, the payload to an empty object and the query to an empty object, each
  independently of the others. Each default container is a newly allocated object: its
  identity is the next free one, the payload and the query of one call are two objects, and
  the default payloads of two successive calls are two different objects.
\<close>

theorem parameter_defaults:
  "(t \<noteq> [] \<longrightarrow>
      constructor (Some t) secret_arg None api_version_arg
        = Inr \<lparr>token = t, secret = secret_arg, api_host = ''graph.facebook.com'',
               api_version = (case api_version_arg of None \<Rightarrow> ''v3.2'' | Some v \<Rightarrow> v)\<rparr>)
   \<and> (t \<noteq> [] \<longrightarrow>
      constructor (Some t) secret_arg api_host_arg None
        = Inr \<lparr>token = t, secret = secret_arg,
               api_host = (case api_host_arg of None \<Rightarrow> ''graph.facebook.com'' | Some h \<Rightarrow> h),
               api_version = ''v3.2''\<rparr>)
   \<and> (t \<noteq> [] \<longrightarrow>
      constructor (Some t) secret_arg None None
        = Inr \<lparr>token = t, secret = secret_arg, api_host = ''graph.facebook.com'',
               api_version = ''v3.2''\<rparr>)
   \<and> callAPI_defaults None JUndefined JUndefined s
       = ((''POST'', JObj (next_id s) [], JObj (Suc (next_id s)) []),
          s\<lparr>next_id := next_id s + 2\<rparr>)
   \<and> callAPI_defaults m p q s
       = ((case m of None \<Rightarrow> ''POST'' | Some x \<Rightarrow> x,
           if p = JUndefined then JObj (next_id s) [] else p,
           if q = JUndefined then JObj (next_id s + (if p = JUndefined then 1 else 0)) [] else q),
          s\<lparr>next_id := next_id s + (if p = JUndefined then 1 else 0)
                                 + (if q = JUndefined then 1 else 0)\<rparr>)
   \<and> (let r1 = callAPI C T path None JUndefined JUndefined s;
           r2 = callAPI C T' path' None JUndefined JUndefined (state_after r1)
       in map_option req_method (request_of r1) = Some ''POST''
          \<and> map_option req_body (request_of r1) = Some (JObj (next_id s) [])
          \<and> map_option req_body (request_of r2) = Some (JObj (next_id s + 2) [])
          \<and> map_option req_body (request_of r1) \<noteq> map_option req_body (request_of r2)
          \<and> next_id (state_after r2) = next_id s + 4)"
proof -
  have 1: "t \<noteq> [] \<longrightarrow>
      constructor (Some t) secret_arg None api_version_arg
        = Inr \<lparr>token = t, secret = secret_arg, api_host = ''graph.facebook.com'',
               api_version = (case api_version_arg of None \<Rightarrow> ''v3.2'' | Some v \<Rightarrow> v)\<rparr>"
    by (simp add: constructor_def)
  have 2: "t \<noteq> [] \<longrightarrow>
      constructor (Some t) secret_arg api_host_arg None
        = Inr \<lparr>token = t, secret = secret_arg,
               api_host = (case api_host_arg of None \<Rightarrow> ''graph.facebook.com'' | Some h \<Rightarrow> h),
               api_version = ''v3.2''\<rparr>"
    by (simp add: constructor_def)
  have 3: "t \<noteq> [] \<longrightarrow>
      constructor (Some t) secret_arg None None
        = Inr \<lparr>token = t, secret = secret_arg, api_host = ''graph.facebook.com'',
               api_version = ''v3.2''\<rparr>"
    by (simp add: constructor_def)
  have 4: "callAPI_defaults None JUndefined JUndefined s
       = ((''POST'', JObj (next_id s) [], JObj (Suc (next_id s)) []),
          s\<lparr>next_id := next_id s + 2\<rparr>)"
    by (simp add: callAPI_defaults_eq)
  have q: "query_string (JObj j []) = Inr ''?''" for j
    by (simp add: query_string_def)
  have 5: "(let r1 = callAPI C T path None JUndefined JUndefined s;
           r2 = callAPI C T' path' None JUndefined JUndefined (state_after r1)
       in map_option req_method (request_of r1) = Some ''POST''
          \<and> map_option req_body (request_of r1) = Some (JObj (next_id s) [])
          \<and> map_option req_body (request_of r2) = Some (JObj (next_id s + 2) [])
          \<and> map_option req_body (request_of r1) \<noteq> map_option req_body (request_of r2)
          \<and> next_id (state_after r2) = next_id s + 4)"
    by (simp add: Let_def request_of_callAPI state_after_callAPI callAPI_defaults_eq q)
  from 1 2 3 4 5 callAPI_defaults_eq [of m p q s] show ?thesis by blast
qed

theorem parameter_defaults_witness:
  "constructor (Some ''EAAB'') None None (Some ''v9.0'')
     = Inr \<lparr>token = ''EAAB'', secret = None, api_host = ''graph.facebook.com'',
            api_version = ''v9.0''\<rparr>
   \<and> constructor (Some ''EAAB'') None (Some ''example.org'') None
     = Inr \<lparr>token = ''EAAB'', secret = None, api_host = ''example.org'',
            api_version = ''v3.2''\<rparr>
   \<and> constructor (Some ''EAAB'') None None None
     = Inr \<lparr>token = ''EAAB'', secret = None, api_host = ''graph.facebook.com'',
            api_version = ''v3.2''\<rparr>
   \<and> callAPI_defaults None JUndefined JUndefined example_state
       = ((''POST'', JObj 5 [], JObj 6 []), example_state\<lparr>next_id := 7\<rparr>)"
  using parameter_defaults [where t = "''EAAB''" and secret_arg = None
      and api_version_arg = "Some ''v9.0''" and api_host_arg = "Some ''example.org''"
      and s = example_state and m = None and p = JUndefined and q = JUndefined
      and C = example_crypto and T = "answering JNull JNull JNull" and path = "''/me''"
      and T' = "answering JNull JNull JNull" and path' = "''/me''"]
  by (simp add: example_state_def)


subsection \<open>The outcome of a call\<close>

text \<open>
  Claim C1, as stated, fails. The request is sent and the transport succeeds with the body
  \<^verbatim>\<open>{ "error": {} }\<close>, whose \<^verbatim>\<open>error\<close> field has no \<^verbatim>\<open>message\<close>. The claim resolves the
  promise to the body; the call rejects it with \<^verbatim>\<open>undefined\<close>.
\<close>

theorem callAPI_outcome_counterexample:
  "request_of (callAPI example_crypto (answering JNull JNull (JObj 1 [(''error'', JObj 0 [])]))
       ''/me'' (Some ''GET'') JUndefined JUndefined example_state)
     = Some example_request
   \<and> outcome_of (callAPI example_crypto (answering JNull JNull (JObj 1 [(''error'', JObj 0 [])]))
       ''/me'' (Some ''GET'') JUndefined JUndefined example_state)
     = Rejected JUndefined
   \<and> spec_outcome JNull (JObj 1 [(''error'', JObj 0 [])])
       = Resolved (JObj 1 [(''error'', JObj 0 [])])
   \<and> outcome_of (callAPI example_crypto (answering JNull JNull (JObj 1 [(''error'', JObj 0 [])]))
         ''/me'' (Some ''GET'') JUndefined JUndefined example_state)
       \<noteq> spec_outcome JNull (JObj 1 [(''error'', JObj 0 [])])"
  by (simp add: example_request_sent outcome_of_callAPI [OF example_request_sent]
      answering_def handler_cases spec_outcome_def)

text \<open>
  Claim C1, amended. For a call of \<^verbatim>\<open>callAPI\<close> that sends its request, the outcome follows
  this order. If the \<^verbatim>\<open>err\<close> the transport reports is truthy, the promise is rejected with
  that very value. Otherwise, for a body that is neither \<^verbatim>\<open>null\<close> nor \<^verbatim>\<open>undefined\<close>: if
  the \<^verbatim>\<open>error\<close> field of the body is truthy the promise is rejected with the \<^verbatim>\<open>message\<close>
  of that field alone, and if not the promise is resolved with the whole body. This is the
  outcome the specification words whenever a truthy \<^verbatim>\<open>error\<close> field has a \<^verbatim>\<open>message\<close>.
\<close>

theorem callAPI_outcome:
  assumes "request_of (callAPI C T path m p q s) = Some req"
    and "T req = (err, res, body)"
  shows "(truthy err \<longrightarrow> outcome_of (callAPI C T path m p q s) = Rejected err)
    \<and> (\<not> truthy err \<and> body \<noteq> JUndefined \<and> body \<noteq> JNull \<and> truthy (prop_of body ''error'') \<longrightarrow>
         outcome_of (callAPI C T path m p q s) = Rejected (prop_of (prop_of body ''error'') ''message''))
    \<and> (\<not> truthy err \<and> body \<noteq> JUndefined \<and> body \<noteq> JNull \<and> \<not> truthy (prop_of body ''error'') \<longrightarrow>
         outcome_of (callAPI C T path m p q s) = Resolved body)
    \<and> (body \<noteq> JUndefined \<and> body \<noteq> JNull
         \<and> (truthy (prop_of body ''error'') \<longrightarrow> has_own (prop_of body ''error'') ''message'') \<longrightarrow>
         outcome_of (callAPI C T path m p q s) = spec_outcome err body)"
proof -
  have o: "outcome_of (callAPI C T path m p q s) = handler err res body"
    using outcome_of_callAPI [OF assms(1)] assms(2) by simp
  have h: "has_own body ''error''" if t: "truthy (prop_of body ''error'')"
  proof (rule ccontr)
    assume "\<not> has_own body ''error''"
    then have "prop_of body ''error'' = JUndefined" by (rule not_has_own_prop_of)
    with t show False by simp
  qed
  have f: "\<not> truthy v \<Longrightarrow> \<not> has_own v ''message''" for v
    by (cases v) (simp_all add: array_index_no_digit is_digit_def)
  show ?thesis
    using h f [of "prop_of body ''error''"] by (auto simp: o handler_cases spec_outcome_def)
qed

theorem callAPI_outcome_witness:
  "request_of (callAPI example_crypto
         (answering (JObj 3 [(''code'', JStr ''ECONNREFUSED'')]) JUndefined JUndefined)
         ''/me'' (Some ''GET'') JUndefined JUndefined example_state)
     = Some example_request
   \<and> outcome_of (callAPI example_crypto
         (answering (JObj 3 [(''code'', JStr ''ECONNREFUSED'')]) JUndefined JUndefined)
         ''/me'' (Some ''GET'') JUndefined JUndefined example_state)
       = Rejected (JObj 3 [(''code'', JStr ''ECONNREFUSED'')])
   \<and> outcome_of (callAPI example_crypto
         (answering JNull JNull (JObj 1 [(''error'', JObj 0 [(''message'', JStr ''Invalid token''), (''code'', JNum 190)])]))
         ''/me'' (Some ''GET'') JUndefined JUndefined example_state)
       = Rejected (JStr ''Invalid token'')
   \<and> outcome_of (callAPI example_crypto (answering JNull JNull (JObj 0 [(''id'', JStr ''123'')]))
         ''/me'' (Some ''GET'') JUndefined JUndefined example_state)
       = Resolved (JObj 0 [(''id'', JStr ''123'')])"
  using
    callAPI_outcome [OF example_request_sent,
      where T = "answering (JObj 3 [(''code'', JStr ''ECONNREFUSED'')]) JUndefined JUndefined"
      and err = "JObj 3 [(''code'', JStr ''ECONNREFUSED'')]" and res = JUndefined
      and body = JUndefined]
    callAPI_outcome [OF example_request_sent,
      where T = "answering JNull JNull (JObj 1 [(''error'', JObj 0 [(''message'', JStr ''Invalid token''), (''code'', JNum 190)])])"
      and err = JNull and res = JNull
      and body = "JObj 1 [(''error'', JObj 0 [(''message'', JStr ''Invalid token''), (''code'', JNum 190)])]"]
    callAPI_outcome [OF example_request_sent,
      where T = "answering JNull JNull (JObj 0 [(''id'', JStr ''123'')])"
      and err = JNull and res = JNull and body = "JObj 0 [(''id'', JStr ''123'')]"]
  by (simp add: answering_def example_request_sent)

text \<open>
  Claim C8. When the request is sent, the transport succeeds and the body has a truthy
  \<^verbatim>\<open>error\<close> field without a \<^verbatim>\<open>message\<close> property (as in \<^verbatim>\<open>{ "error": {} }\<close> and
  \<^verbatim>\<open>{ "error": true }\<close>), \<^verbatim>\<open>callAPI\<close> rejects the promise, and the reason is
  \<^verbatim>\<open>undefined\<close>, not a string: the test is on the truthiness of the \<^verbatim>\<open>error\<close> field, not on
  the presence of a message.
\<close>

theorem callAPI_error_without_message:
  assumes "request_of (callAPI C T path m p q s) = Some req"
    and "T req = (err, res, body)"
    and "\<not> truthy err"
    and "get_prop body ''error'' = Inr e"
    and "truthy e"
    and "\<not> has_own e ''message''"
  shows "outcome_of (callAPI C T path m p q s) = Rejected JUndefined"
proof -
  have o: "outcome_of (callAPI C T path m p q s) = handler err res body"
    using outcome_of_callAPI [OF assms(1)] assms(2) by simp
  have b: "body \<noteq> JUndefined \<and> body \<noteq> JNull \<and> prop_of body ''error'' = e"
    using assms(4) by (auto simp: get_prop_def split: if_splits)
  have "prop_of e ''message'' = JUndefined"
    using assms(6) by (rule not_has_own_prop_of)
  with b assms(3,5) show ?thesis
    by (simp add: o handler_cases)
qed

theorem callAPI_error_without_message_witness:
  "outcome_of (callAPI example_crypto (answering JNull JNull (JObj 1 [(''error'', JObj 0 [])]))
       ''/me'' (Some ''GET'') JUndefined JUndefined example_state) = Rejected JUndefined
   \<and> outcome_of (callAPI example_crypto (answering JNull JNull (JObj 1 [(''error'', JBool True)]))
       ''/me'' (Some ''GET'') JUndefined JUndefined example_state) = Rejected JUndefined"
  using
    callAPI_error_without_message [OF example_request_sent,
      where T = "answering JNull JNull (JObj 1 [(''error'', JObj 0 [])])"
      and err = JNull and res = JNull and body = "JObj 1 [(''error'', JObj 0 [])]"
      and e = "JObj 0 []"]
    callAPI_error_without_message [OF example_request_sent,
      where T = "answering JNull JNull (JObj 1 [(''error'', JBool True)])"
      and err = JNull and res = JNull and body = "JObj 1 [(''error'', JBool True)]"
      and e = "JBool True"]
  by (simp add: answering_def get_prop_def)

text \<open>
  Claim C9. When the request is sent and the transport succeeds with a body that is
  \<^verbatim>\<open>null\<close> or \<^verbatim>\<open>undefined\<close>, the read \<^verbatim>\<open>body.error\<close> throws a TypeError in the callback
  and the promise is neither resolved nor rejected. After a transport success the promise is
  settled exactly when the body is neither \<^verbatim>\<open>null\<close> nor \<^verbatim>\<open>undefined\<close>.
\<close>

theorem callAPI_null_body_faults:
  assumes "request_of (callAPI C T path m p q s) = Some req"
    and "T req = (err, res, body)"
    and "\<not> truthy err"
  shows "(body = JNull \<or> body = JUndefined \<longrightarrow>
            get_prop body ''error'' = Inl TypeError
            \<and> outcome_of (callAPI C T path m p q s) = Faulted TypeError)
    \<and> (settled (outcome_of (callAPI C T path m p q s)) \<longleftrightarrow> body \<noteq> JNull \<and> body \<noteq> JUndefined)"
proof -
  have o: "outcome_of (callAPI C T path m p q s) = handler err res body"
    using outcome_of_callAPI [OF assms(1)] assms(2) by simp
  show ?thesis
    using assms(3) by (auto simp: o handler_cases get_prop_def)
qed

theorem callAPI_null_body_faults_witness:
  "outcome_of (callAPI example_crypto (answering JNull (JObj 2 [(''statusCode'', JNum 204)]) JUndefined)
       ''/me'' (Some ''GET'') JUndefined JUndefined example_state) = Faulted TypeError
   \<and> outcome_of (callAPI example_crypto (answering JNull JNull JNull)
       ''/me'' (Some ''GET'') JUndefined JUndefined example_state) = Faulted TypeError
   \<and> settled (outcome_of (callAPI example_crypto (answering JNull JNull (JStr ''ok''))
       ''/me'' (Some ''GET'') JUndefined JUndefined example_state))"
  using
    callAPI_null_body_faults [OF example_request_sent,
      where T = "answering JNull (JObj 2 [(''statusCode'', JNum 204)]) JUndefined"
      and err = JNull and res = "JObj 2 [(''statusCode'', JNum 204)]" and body = JUndefined]
    callAPI_null_body_faults [OF example_request_sent,
      where T = "answering JNull JNull JNull" and err = JNull and res = JNull and body = JNull]
    callAPI_null_body_faults [OF example_request_sent,
      where T = "answering JNull JNull (JStr ''ok'')"
      and err = JNull and res = JNull and body = "JStr ''ok''"]
  by (simp add: answering_def)


subsection \<open>The URL of a call\<close>

lemma array_index_a: "array_index ''a'' = None"
  by (simp add: array_index_no_digit is_digit_def)

text \<open>
  A query value that cannot be converted: the call throws before any request is sent, and
  the promise is rejected with the TypeError.
\<close>

lemma callAPI_conversion_throws:
  "callAPI example_crypto T ''/me'' (Some ''GET'') JUndefined
       (JObj 0 [(''a'', JObj 1 [(''toString'', JNum 1)])]) example_state
     = ((None, Thrown TypeError), example_state\<lparr>next_id := 6\<rparr>)"
  by (simp add: callAPI_unfold callAPI_defaults_eq query_string_def array_index_a
      example_state_def)

lemma array_index_b: "array_index ''b'' = None"
  by (simp add: array_index_no_digit is_digit_def)

lemma array_index_1: "array_index ''1'' = Some 1"
  by (simp add: array_index_def is_digit_def digit_value_def)

lemma show_int_1: "show_int 1 = ''1''"
  by (simp add: show_int_def show_nat.simps)

lemma show_int_2: "show_int 2 = ''2''"
  by (simp add: show_int_def show_nat.simps)

lemma entries_in_insertion_order:
  assumes "distinct (map fst ps)"
  shows "map (\<lambda>key. key @ ''='' @ projr (to_string (prop_of (JObj i ps) key)) @ ''&'') (map fst ps)
           = map (\<lambda>(k, v). k @ ''='' @ projr (to_string v) @ ''&'') ps"
proof -
  have "prop_of (JObj i ps) k = v" if "(k, v) \<in> set ps" for k v
    using that assms by simp
  then show ?thesis by (auto simp: list.map_comp)
qed

lemma for_in_keys_other_keys:
  "filter (\<lambda>k. array_index k = None) (for_in_keys (JObj i ps))
     = filter (\<lambda>k. array_index k = None) (map fst ps)"
proof -
  have "filter (\<lambda>k. array_index k = None)
          (sort_key (\<lambda>k. case array_index k of Some n \<Rightarrow> n | None \<Rightarrow> 0)
             (filter (\<lambda>k. array_index k \<noteq> None) (map fst ps))) = []"
    by (auto simp: filter_empty_conv)
  then show ?thesis by (simp add: Let_def)
qed

lemma for_in_keys_index_keys:
  "filter (\<lambda>k. array_index k \<noteq> None) (for_in_keys (JObj i ps))
     = sort_key (\<lambda>k. case array_index k of Some n \<Rightarrow> n | None \<Rightarrow> 0)
         (filter (\<lambda>k. array_index k \<noteq> None) (map fst ps))"
proof -
  let ?f = "\<lambda>k. case array_index k of Some n \<Rightarrow> n | None \<Rightarrow> (0::nat)"
  let ?P = "\<lambda>k. array_index k \<noteq> None"
  have 1: "filter ?P (sort_key ?f (filter ?P (map fst ps))) = sort_key ?f (filter ?P (map fst ps))"
    by (simp add: filter_id_conv)
  have 2: "filter ?P (filter (\<lambda>k. array_index k = None) (map fst ps)) = []"
    by (auto simp: filter_empty_conv)
  show ?thesis
    unfolding for_in_keys.simps Let_def filter_append 1 2 by simp
qed

lemma for_in_keys_order:
  "for_in_keys (JObj i ps)
     = filter (\<lambda>k. array_index k \<noteq> None) (for_in_keys (JObj i ps))
       @ filter (\<lambda>k. array_index k = None) (for_in_keys (JObj i ps))
   \<and> sorted (map (\<lambda>k. case array_index k of Some n \<Rightarrow> n | None \<Rightarrow> 0)
              (filter (\<lambda>k. array_index k \<noteq> None) (for_in_keys (JObj i ps))))
   \<and> filter (\<lambda>k. array_index k = None) (for_in_keys (JObj i ps))
       = filter (\<lambda>k. array_index k = None) (map fst ps)
   \<and> set (for_in_keys (JObj i ps)) = fst ` set ps"
proof -
  have 1: "for_in_keys (JObj i ps)
     = filter (\<lambda>k. array_index k \<noteq> None) (for_in_keys (JObj i ps))
       @ filter (\<lambda>k. array_index k = None) (for_in_keys (JObj i ps))"
    unfolding for_in_keys_index_keys for_in_keys_other_keys by (simp add: Let_def)
  have 2: "sorted (map (\<lambda>k. case array_index k of Some n \<Rightarrow> n | None \<Rightarrow> 0)
              (filter (\<lambda>k. array_index k \<noteq> None) (for_in_keys (JObj i ps))))"
    unfolding for_in_keys_index_keys by (rule sorted_sort_key)
  have 3: "set (for_in_keys (JObj i ps)) = fst ` set ps"
    by (auto simp: Let_def)
  from 1 2 3 for_in_keys_other_keys [of i ps] show ?thesis by blast
qed

text \<open>
  Claim C2, as stated, fails. For the query \<^verbatim>\<open>{ b: 1, "1": 2 }\<close> the entries in insertion
  order are \<^verbatim>\<open>b=1&1=2&\<close>; the loop visits the array index \<^verbatim>\<open>1\<close> first, so the URL has
  \<^verbatim>\<open>1=2&b=1&\<close>.
\<close>

theorem callAPI_uri_counterexample:
  "map_option req_uri
     (request_of (callAPI example_crypto (answering JNull JNull JNull) ''/me'' (Some ''GET'')
        JUndefined (JObj 0 [(''b'', JNum 1), (''1'', JNum 2)]) example_state))
     = Some ''https://graph.facebook.com/v3.2/me?1=2&b=1&access_token=EAAB&appsecret_proof=sha256-hex(s3cret,EAAB)''
   \<and> spec_query_string [(''b'', JNum 1), (''1'', JNum 2)] = ''?b=1&1=2&''
   \<and> map_option req_uri
         (request_of (callAPI example_crypto (answering JNull JNull JNull) ''/me'' (Some ''GET'')
            JUndefined (JObj 0 [(''b'', JNum 1), (''1'', JNum 2)]) example_state))
       \<noteq> Some (''https://'' @ api_host (self example_state) @ ''/''
                 @ api_version (self example_state) @ ''/me''
                 @ spec_query_string [(''b'', JNum 1), (''1'', JNum 2)]
                 @ ''access_token='' @ token (self example_state) @ ''&appsecret_proof=''
                 @ fst (getAppSecretProof example_crypto (token (self example_state))
                          (secret (self example_state)) example_state))"
  by (simp add: request_of_callAPI callAPI_defaults_eq query_string_def getAppSecretProof_eq
      array_index_b array_index_1 show_int_1 show_int_2 spec_query_string_def
      example_state_def example_crypto_def)

text \<open>
  Claim C2, amended. Take a call whose query is a mapping in which every value converts to a
  string (no conversion throws) and every number is a safe integer. Then the request is sent
  and its URL is \<^verbatim>\<open>https://\<close>, the host, \<^verbatim>\<open>/\<close>, the version, the path, \<^verbatim>\<open>?\<close>, then
  \<^verbatim>\<open>key=value&\<close> for each key in the order the \<^verbatim>\<open>for\<close>-\<^verbatim>\<open>in\<close> loop visits the keys (array
  indices first, ascending, then the other keys in insertion order), the value as the string
  of its conversion with no encoding, then \<^verbatim>\<open>access_token=<token>&appsecret_proof=<proof>\<close>.
  That order: the keys that are array indices come before all others and ascend
  numerically, the other keys keep their insertion order, and every key of the mapping is
  visited; a string value is its own string, unchanged.
  When no key is an array index that order is the insertion order, and the URL is the one
  the specification words. For the query \<^verbatim>\<open>{ a: 1, b: 2 }\<close> the URL has \<^verbatim>\<open>a=1&b=2&\<close> right
  before \<^verbatim>\<open>access_token=\<close>.
\<close>

theorem callAPI_uri:
  "((\<forall>v \<in> snd ` set ps. \<not> isl (to_string v)) \<and> safe_numbers (JObj i ps) \<longrightarrow>
      map_option req_uri (request_of (callAPI C T path m p (JObj i ps) s))
        = Some (''https://'' @ api_host (self s) @ ''/'' @ api_version (self s) @ path @ ''?''
                @ concat (map (\<lambda>key. key @ ''='' @ projr (to_string (prop_of (JObj i ps) key)) @ ''&'')
                            (for_in_keys (JObj i ps)))
                @ ''access_token='' @ token (self s) @ ''&appsecret_proof=''
                @ fst (getAppSecretProof C (token (self s)) (secret (self s)) s)))
   \<and> (for_in_keys (JObj i ps)
          = filter (\<lambda>k. array_index k \<noteq> None) (for_in_keys (JObj i ps))
            @ filter (\<lambda>k. array_index k = None) (for_in_keys (JObj i ps))
        \<and> sorted (map (\<lambda>k. case array_index k of Some n \<Rightarrow> n | None \<Rightarrow> 0)
                   (filter (\<lambda>k. array_index k \<noteq> None) (for_in_keys (JObj i ps))))
        \<and> filter (\<lambda>k. array_index k = None) (for_in_keys (JObj i ps))
            = filter (\<lambda>k. array_index k = None) (map fst ps)
        \<and> set (for_in_keys (JObj i ps)) = fst ` set ps)
   \<and> to_string (JStr str) = Inr str
   \<and> ((\<forall>k \<in> fst ` set ps. array_index k = None) \<longrightarrow> for_in_keys (JObj i ps) = map fst ps)
   \<and> ((\<forall>v \<in> snd ` set ps. \<not> isl (to_string v)) \<and> safe_numbers (JObj i ps)
        \<and> (\<forall>k \<in> fst ` set ps. array_index k = None) \<and> distinct (map fst ps) \<longrightarrow>
        map_option req_uri (request_of (callAPI C T path m p (JObj i ps) s))
          = Some (''https://'' @ api_host (self s) @ ''/'' @ api_version (self s) @ path
                  @ spec_query_string ps
                  @ ''access_token='' @ token (self s) @ ''&appsecret_proof=''
                  @ fst (getAppSecretProof C (token (self s)) (secret (self s)) s)))
   \<and> safe_numbers (JObj i [(''a'', JNum 1), (''b'', JNum 2)])
   \<and> map_option req_uri
         (request_of (callAPI C T path m p (JObj i [(''a'', JNum 1), (''b'', JNum 2)]) s))
       = Some (''https://'' @ api_host (self s) @ ''/'' @ api_version (self s) @ path
               @ ''?a=1&b=2&access_token='' @ token (self s) @ ''&appsecret_proof=''
               @ fst (getAppSecretProof C (token (self s)) (secret (self s)) s))"
proof -
  have u: "map_option req_uri (request_of (callAPI C T path m p (JObj j qs) s))
        = Some (''https://'' @ api_host (self s) @ ''/'' @ api_version (self s) @ path @ ''?''
                @ concat (map (\<lambda>key. key @ ''='' @ projr (to_string (prop_of (JObj j qs) key)) @ ''&'')
                            (for_in_keys (JObj j qs)))
                @ ''access_token='' @ token (self s) @ ''&appsecret_proof=''
                @ fst (getAppSecretProof C (token (self s)) (secret (self s)) s))"
    if "\<forall>v \<in> snd ` set qs. \<not> isl (to_string v)" for j qs
    using query_string_converts [OF that, of j]
    by (simp add: request_of_callAPI callAPI_defaults_eq)
  have k: "for_in_keys (JObj i ps) = map fst ps" if "\<forall>k \<in> fst ` set ps. array_index k = None"
    using that by (rule for_in_keys_insertion_order)
  have w: "map_option req_uri (request_of (callAPI C T path m p (JObj i ps) s))
          = Some (''https://'' @ api_host (self s) @ ''/'' @ api_version (self s) @ path
                  @ spec_query_string ps
                  @ ''access_token='' @ token (self s) @ ''&appsecret_proof=''
                  @ fst (getAppSecretProof C (token (self s)) (secret (self s)) s))"
    if c: "\<forall>v \<in> snd ` set ps. \<not> isl (to_string v)"
      and n: "\<forall>k \<in> fst ` set ps. array_index k = None" and d: "distinct (map fst ps)"
    unfolding u [OF c] k [OF n] entries_in_insertion_order [OF d] spec_query_string_def by simp
  have "\<forall>v \<in> snd ` set [(''a'', JNum 1), (''b'', JNum 2)]. \<not> isl (to_string v)"
    by simp
  from u [OF this, of i]
  have e: "map_option req_uri
         (request_of (callAPI C T path m p (JObj i [(''a'', JNum 1), (''b'', JNum 2)]) s))
       = Some (''https://'' @ api_host (self s) @ ''/'' @ api_version (self s) @ path
               @ ''?a=1&b=2&access_token='' @ token (self s) @ ''&appsecret_proof=''
               @ fst (getAppSecretProof C (token (self s)) (secret (self s)) s))"
    by (simp add: array_index_a array_index_b show_int_1 show_int_2)
  have f: "safe_numbers (JObj i [(''a'', JNum 1), (''b'', JNum 2)])"
    by simp
  have g: "to_string (JStr str) = Inr str"
    by simp
  from u [of ps i] for_in_keys_order [of i ps] g k w e f show ?thesis by blast
qed

theorem callAPI_uri_witness:
  "for_in_keys (JObj 0 [(''a'', JNum 1), (''b'', JStr ''x y'')]) = [''a'', ''b'']
   \<and> map_option req_uri
         (request_of (callAPI example_crypto (answering JNull JNull JNull) ''/me/messages'' None
            JUndefined (JObj 0 [(''a'', JNum 1), (''b'', JStr ''x y'')]) example_state))
       = Some ''https://graph.facebook.com/v3.2/me/messages?a=1&b=x y&access_token=EAAB&appsecret_proof=sha256-hex(s3cret,EAAB)''"
  using callAPI_uri [where C = example_crypto and T = "answering JNull JNull JNull"
      and path = "''/me/messages''" and m = None and p = JUndefined and i = 0
      and ps = "[(''a'', JNum 1), (''b'', JStr ''x y'')]" and s = example_state]
  by (simp add: array_index_a array_index_b show_int_1 spec_query_string_def
      getAppSecretProof_eq example_state_def example_crypto_def)

end
